theory Spec2Isabelle
  imports Main "HOL-Library.Word"
begin

section \<open>ntfy-to-slack: data model\<close>

text \<open>
  The program is one Go file, \<^verbatim>\<open>ntfy-to-slack.go\<close>. It subscribes to a topic of an
  ntfy server over a streaming HTTP GET, and relays every \<^verbatim>\<open>message\<close> event to a
  Slack webhook with an HTTP POST.

  Go's \<^verbatim>\<open>error\<close> values are either made by \<^verbatim>\<open>errors.New\<close> in the program or come
  out of the standard library (net/http, encoding/json, bufio, io); the latter are
  identified by their text.
\<close>

datatype error = errors_New string | lib_error string

text \<open>
  A function of the program either returns or panics (a nil pointer is dereferenced).
\<close>

datatype 'a exec = Panic string | Return 'a

definition nil_dereference :: string where
  "nil_dereference = ''invalid memory address or nil pointer dereference''"

text \<open>\<^verbatim>\<open>type ntfyMessage struct\<close> (\<open>Time\<close> is an \<^verbatim>\<open>int64\<close>, read with \<open>sint\<close>) and
  \<^verbatim>\<open>type slackMessage struct\<close>.\<close>

record ntfyMessage =
  Id' :: string
  Time :: "64 word"
  Event :: string
  Topic :: string
  Title :: string
  Message :: string

record slackMessage =
  Text :: string

text \<open>
  The package-level variables \<^verbatim>\<open>ntfyDomain, ntfyTopic, ntfyAuth, slackWebhookUrl\<close>, all
  of type \<^verbatim>\<open>*string\<close>: \<open>None\<close> is the nil pointer, \<open>Some s\<close> a pointer to \<open>s\<close>.
\<close>

record config =
  ntfyDomain :: "string option"
  ntfyTopic :: "string option"
  ntfyAuth :: "string option"
  slackWebhookUrl :: "string option"

subsection \<open>HTTP requests and responses\<close>

text \<open>
  \<^verbatim>\<open>http.Request\<close>: method, URL, header and body. The header is kept as the list of
  its (key, value) lines in the order they were added; the two keys the program uses,
  \<^verbatim>\<open>Authorization\<close> and \<^verbatim>\<open>Content-Type\<close>, are already in canonical form.
\<close>

record request =
  Method :: string
  URL :: string
  Header :: "(string \<times> string) list"
  ReqBody :: "string option"

definition Header_Add :: "request \<Rightarrow> string \<Rightarrow> string \<Rightarrow> request" where
  "Header_Add req k v = req\<lparr>Header := Header req @ [(k, v)]\<rparr>"

definition Header_Set :: "request \<Rightarrow> string \<Rightarrow> string \<Rightarrow> request" where
  "Header_Set req k v = req\<lparr>Header := filter (\<lambda>kv. fst kv \<noteq> k) (Header req) @ [(k, v)]\<rparr>"

text \<open>
  \<^verbatim>\<open>resp.Body\<close>, an \<^verbatim>\<open>io.ReadCloser\<close>: the bytes the reader delivers, how it stops
  (\<open>None\<close> is \<^verbatim>\<open>io.EOF\<close>, \<open>Some e\<close> a failing read), whether its last \<^verbatim>\<open>Read\<close> hands
  over its bytes together with that stop (the \<^verbatim>\<open>io.Reader\<close> contract allows both), and
  what \<^verbatim>\<open>Close\<close> returns.
\<close>

record body =
  content :: string
  stop_err :: "error option"
  stop_with_data :: bool
  close_err :: "error option"

record response =
  StatusCode :: int
  Body :: body

text \<open>
  What the program cannot see into: the standard library and the network. Each field is
  one library call of the source.
  \<^item> \<open>url_Parse\<close>: the check of the URL inside \<^verbatim>\<open>http.NewRequest\<close> (\<open>Some e\<close>: rejected);
  \<^item> \<open>client_Do\<close>: \<^verbatim>\<open>client.Do(req)\<close>, a transport error or a response;
  \<^item> \<open>json_Unmarshal\<close>: \<^verbatim>\<open>json.Unmarshal\<close> into a zero \<^verbatim>\<open>ntfyMessage\<close>;
  \<^item> \<open>json_Marshal\<close>: \<^verbatim>\<open>json.Marshal\<close> of a \<^verbatim>\<open>slackMessage\<close>.
\<close>

record world =
  url_Parse :: "string \<Rightarrow> error option"
  client_Do :: "request \<Rightarrow> error + response"
  json_Unmarshal :: "string \<Rightarrow> error + ntfyMessage"
  json_Marshal :: "slackMessage \<Rightarrow> error + string"

definition http_NewRequest :: "world \<Rightarrow> string \<Rightarrow> string \<Rightarrow> string option \<Rightarrow> error + request" where
  "http_NewRequest w method url b =
     (case url_Parse w url of
        Some err \<Rightarrow> Inl err
      | None \<Rightarrow> Inr \<lparr>Method = method, URL = url, Header = [], ReqBody = b\<rparr>)"

text \<open>\<^verbatim>\<open>io.ReadAll\<close>: everything the reader delivers, and the error unless it is EOF.\<close>

definition io_ReadAll :: "body \<Rightarrow> string \<times> error option" where
  "io_ReadAll b = (content b, stop_err b)"

subsection \<open>What a run does\<close>

text \<open>
  The observable actions of the program, in the order they happen: log calls (level,
  message, attributes; the level filter set from \<^verbatim>\<open>LOG_LEVEL\<close> sits in the log sink, the
  trace records the calls), requests handed to the HTTP client, reads of a response body
  (\<^verbatim>\<open>io.ReadAll\<close>, or one \<^verbatim>\<open>scanner.Scan()\<close>) and its close, goroutines started with
  \<^verbatim>\<open>go sendToSlack(...)\<close>, sleeps (a \<^verbatim>\<open>time.Duration\<close>, in nanoseconds),
  \<^verbatim>\<open>println\<close>, the error message and the usage text the flag package writes,
  \<^verbatim>\<open>os.Exit\<close>, and the crash of the process on a panic.
\<close>

text \<open>The ways \<^verbatim>\<open>flag.Parse()\<close> fails.\<close>

datatype flag_error =
    ErrHelp
  | bad_flag_syntax string
  | flag_not_defined string
  | invalid_boolean_value string string
  | flag_needs_argument string

datatype level = LevelDebug | LevelInfo | LevelWarn | LevelError

datatype attr = AStr string | AInt int | AErr error

datatype effect =
    Log level string "(string \<times> attr) list"
  | ClientDo request
  | ReadAll
  | BodyScan
  | BodyClose
  | Go_sendToSlack "slackMessage option"
  | Sleep int
  | Println string
  | FlagError flag_error
  | Usage
  | Exit int
  | Crash string

text \<open>\<^verbatim>\<open>strconv.FormatInt(i, 10)\<close>.\<close>

definition digit_char :: "nat \<Rightarrow> char" where
  "digit_char d = char_of (48 + d)"

function nat_decimal :: "nat \<Rightarrow> string" where
  "nat_decimal n = (if n < 10 then [digit_char n] else nat_decimal (n div 10) @ [digit_char (n mod 10)])"
  by pat_completeness auto
termination
  by (relation "measure id") auto

declare nat_decimal.simps [simp del]

definition FormatInt :: "int \<Rightarrow> string" where
  "FormatInt i = (if i < 0 then CHR ''-'' # nat_decimal (nat (- i)) else nat_decimal (nat i))"

section \<open>The delivery function\<close>

text \<open>
  \<^verbatim>\<open>func sendToSlack(webhook *slackMessage) error\<close>. The deferred close of the response
  body runs last, and logs when closing fails.
\<close>

definition close_body :: "body \<Rightarrow> effect list" where
  "close_body b =
     (case close_err b of
        None \<Rightarrow> [BodyClose]
      | Some err \<Rightarrow> [BodyClose, Log LevelError ''error closing response body'' [(''err'', AErr err)]])"

definition sendToSlack :: "world \<Rightarrow> config \<Rightarrow> slackMessage option \<Rightarrow> error option exec \<times> effect list" where
  "sendToSlack w cfg webhook =
     (case webhook of
        None \<Rightarrow> (Return (Some (errors_New ''webhook undefined'')), [])
      | Some m \<Rightarrow>
         (case json_Marshal w m of
            Inl err \<Rightarrow> (Return (Some err), [])
          | Inr jsonBytes \<Rightarrow>
             (case slackWebhookUrl cfg of
                None \<Rightarrow> (Panic nil_dereference, [])
              | Some url \<Rightarrow>
                 (case http_NewRequest w ''POST'' url (Some jsonBytes) of
                    Inl err \<Rightarrow> (Return (Some err), [])
                  | Inr req0 \<Rightarrow>
                     (let req = Header_Set req0 ''Content-Type'' ''application/json'' in
                      case client_Do w req of
                        Inl err \<Rightarrow> (Return (Some err), [ClientDo req])
                      | Inr resp \<Rightarrow>
                         (case io_ReadAll (Body resp) of
                            (b, Some err) \<Rightarrow>
                              (Return (Some err),
                               [ClientDo req, ReadAll,
                                Log LevelError ''error parsing body'' [(''err'', AErr err)]]
                               @ close_body (Body resp))
                          | (b, None) \<Rightarrow>
                              (if StatusCode resp \<ge> 400
                               then Return (Some (errors_New (''error status code '' @ FormatInt (StatusCode resp))))
                               else Return None,
                               [ClientDo req, ReadAll,
                                Log LevelDebug ''slack response''
                                  [(''status'', AInt (StatusCode resp)), (''body'', AStr b)]]
                               @ close_body (Body resp))))))))"

section \<open>The subscription session\<close>

subsection \<open>Reading the response line by line\<close>

text \<open>
  \<^verbatim>\<open>bufio.NewScanner(resp.Body)\<close> with its defaults: the split function is
  \<^verbatim>\<open>bufio.ScanLines\<close> and the buffer grows up to \<^verbatim>\<open>bufio.MaxScanTokenSize = 64 * 1024\<close>
  bytes. The scanner record keeps what \<open>Scan\<close> needs: the bytes of the body not yet
  handed out (\<open>unread\<close>: the rest of the buffer and what the reader will still deliver),
  how the reader stops, the last token (\<^verbatim>\<open>scanner.Text()\<close>) and the error
  \<^verbatim>\<open>scanner.Err()\<close> would report.

  One call of \<open>Scan\<close>:
  \<^item> a newline within the first \<open>MaxScanTokenSize\<close> unread bytes: the token is the
    line before it, without a trailing carriage return, and the scanner moves past the
    newline;
  \<^item> no newline, and the reader stops before the buffer is full (or it fills the buffer
    with its last read and reports the stop with it): the rest, if not empty, is the
    last token;
  \<^item> the buffer is full (\<open>MaxScanTokenSize\<close> bytes) and holds no newline: \<open>Scan\<close>
    returns false with \<^verbatim>\<open>bufio.ErrTooLong\<close>;
  \<^item> nothing is left: \<open>Scan\<close> returns false; \<open>Err()\<close> is the reader's error, nil at EOF.
\<close>

definition MaxScanTokenSize :: nat where
  "MaxScanTokenSize = 64 * 1024"

definition ErrTooLong :: error where
  "ErrTooLong = lib_error ''bufio.Scanner: token too long''"

record Scanner =
  unread :: string
  rd_err :: "error option"
  rd_with_data :: bool
  token :: string
  err :: "error option"

definition NewScanner :: "body \<Rightarrow> Scanner" where
  "NewScanner b =
     \<lparr>unread = content b, rd_err = stop_err b, rd_with_data = stop_with_data b,
      token = [], err = None\<rparr>"

definition dropCR :: "string \<Rightarrow> string" where
  "dropCR data = (if data \<noteq> [] \<and> last data = CHR 0x0D then butlast data else data)"

definition Scan :: "Scanner \<Rightarrow> bool \<times> Scanner" where
  "Scan s =
     (let data = unread s; line = takeWhile (\<lambda>c. c \<noteq> CHR 0x0A) data in
      if length line < length data then
        (if length line < MaxScanTokenSize
         then (True, s\<lparr>unread := drop (Suc (length line)) data, token := dropCR line\<rparr>)
         else (False, s\<lparr>err := Some ErrTooLong\<rparr>))
      else if data = [] then (False, s\<lparr>err := rd_err s\<rparr>)
      else if length data < MaxScanTokenSize
              \<or> (length data = MaxScanTokenSize \<and> rd_with_data s)
        then (True, s\<lparr>unread := [], token := dropCR data\<rparr>)
        else (False, s\<lparr>err := Some ErrTooLong\<rparr>))"

subsection \<open>The body of the read loop\<close>

text \<open>
  What one iteration does with the line \<^verbatim>\<open>scanner.Text()\<close>: the decoding, and the
  \<^verbatim>\<open>switch msg.Event\<close>. Every branch ends in \<^verbatim>\<open>continue\<close>. \<open>domain\<close> is
  \<^verbatim>\<open>*ntfyDomain\<close>.
\<close>

definition loop_body :: "world \<Rightarrow> string \<Rightarrow> string \<Rightarrow> effect list" where
  "loop_body w domain text =
     (case json_Unmarshal w text of
        Inl e \<Rightarrow>
          [Log LevelError ''error while processing ntfy message''
             [(''err'', AErr e), (''text'', AStr text)]]
      | Inr msg \<Rightarrow>
          if Event msg = ''open'' then
            [Log LevelInfo ''subscription established'' [(''domain'', AStr domain)]]
          else if Event msg = ''keepalive'' then
            [Log LevelDebug ''keepalive'' []]
          else if Event msg = ''message'' then
            [Log LevelInfo ''sending message''
               [(''title'', AStr (Title msg)), (''message'', AStr (Message msg))],
             if Title msg \<noteq> []
             then Go_sendToSlack (Some \<lparr>Text = ''**'' @ Title msg @ ''**: '' @ Message msg\<rparr>)
             else Go_sendToSlack (Some \<lparr>Text = Message msg\<rparr>)]
          else
            [Log LevelWarn ''bad message received'' [(''message'', AStr text)]])"

text \<open>\<^verbatim>\<open>for scanner.Scan() { ... }\<close>\<close>

function stream_loop :: "world \<Rightarrow> string \<Rightarrow> Scanner \<Rightarrow> effect list" where
  "stream_loop w domain s =
     (case Scan s of
        (True, s') \<Rightarrow> BodyScan # loop_body w domain (token s') @ stream_loop w domain s'
      | (False, s') \<Rightarrow> [BodyScan])"
  by pat_completeness auto
termination
  by (relation "measure (\<lambda>(w, domain, s). length (unread s))")
     (auto simp: Scan_def Let_def split: if_splits)

declare stream_loop.simps [simp del]

subsection \<open>The session function\<close>

text \<open>
  \<^verbatim>\<open>func waitForNtfyMessage() error\<close>. The \<^verbatim>\<open>defer resp.Body.Close()\<close> stands after
  the two early returns, so it is registered, and runs, only on the streaming path.
\<close>

definition waitForNtfyMessage :: "world \<Rightarrow> config \<Rightarrow> error option exec \<times> effect list" where
  "waitForNtfyMessage w cfg =
     (case ntfyDomain cfg of
        None \<Rightarrow> (Panic nil_dereference, [])
      | Some domain \<Rightarrow>
         (case ntfyTopic cfg of
            None \<Rightarrow> (Panic nil_dereference, [])
          | Some topic \<Rightarrow>
             (case http_NewRequest w ''GET'' (''https://'' @ domain @ ''/'' @ topic @ ''/json'') None of
                Inl e \<Rightarrow>
                  (Return (Some e),
                   [Log LevelError ''error getting ntfy response'' [(''err'', AErr e)]])
              | Inr req0 \<Rightarrow>
                 (let req = (case ntfyAuth cfg of
                               None \<Rightarrow> req0
                             | Some auth \<Rightarrow> Header_Add req0 ''Authorization'' (''Bearer '' @ auth)) in
                  case client_Do w req of
                    Inl e \<Rightarrow>
                      (Return (Some e),
                       [ClientDo req,
                        Log LevelError ''error connecting to ntfy server'' [(''err'', AErr e)]])
                  | Inr resp \<Rightarrow>
                      if StatusCode resp \<noteq> 200 then
                        (Return (Some (errors_New ''invalid response code from ntfy'')),
                         [ClientDo req,
                          Log LevelError ''invalid status code''
                            [(''expected'', AInt 200), (''domain'', AStr domain),
                             (''statusCode'', AStr (FormatInt (StatusCode resp)))]])
                      else
                        (Return None,
                         [ClientDo req] @ stream_loop w domain (NewScanner (Body resp))
                         @ [BodyClose])))))"

section \<open>The entry point\<close>

subsection \<open>Configuration\<close>

text \<open>
  \<^verbatim>\<open>os.LookupEnv\<close> on the environment, and \<^verbatim>\<open>flag.String(name, value, usage)\<close> read
  after \<^verbatim>\<open>flag.Parse()\<close>: a pointer, never nil, to the value given on the command line,
  or to the default. \<open>given\<close> maps the names of the flags on the command line to their
  values.
\<close>

definition LookupEnv :: "(string \<rightharpoonup> string) \<Rightarrow> string \<Rightarrow> string \<times> bool" where
  "LookupEnv env k = (case env k of Some v \<Rightarrow> (v, True) | None \<Rightarrow> ([], False))"

definition flag_String :: "(string \<rightharpoonup> string) \<Rightarrow> string \<Rightarrow> string \<Rightarrow> string option" where
  "flag_String given name val = Some (case given name of Some v \<Rightarrow> v | None \<Rightarrow> val)"


definition upstreamNtfyServer :: string where
  "upstreamNtfyServer = ''ntfy.sh''"

definition main_config :: "(string \<rightharpoonup> string) \<Rightarrow> (string \<rightharpoonup> string) \<Rightarrow> config" where
  "main_config env given =
     (let (envNtfyDomain, ok) = LookupEnv env ''NTFY_DOMAIN'';
          defaultNtfyDomain = (if ok then envNtfyDomain else upstreamNtfyServer);
          envNtfyTopic = fst (LookupEnv env ''NTFY_TOPIC'');
          envNtfyAuth = fst (LookupEnv env ''NTFY_AUTH'');
          envSlackWebhookUrl = fst (LookupEnv env ''SLACK_WEBHOOK_URL'')
      in \<lparr>ntfyDomain = flag_String given ''ntfy-domain'' defaultNtfyDomain,
          ntfyTopic = flag_String given ''ntfy-topic'' envNtfyTopic,
          ntfyAuth = flag_String given ''ntfy-auth'' envNtfyAuth,
          slackWebhookUrl = flag_String given ''slack-webhook'' envSlackWebhookUrl\<rparr>)"

subsection \<open>The command line\<close>







subsection \<open>The supervisory loop\<close>

text \<open>
  \<^verbatim>\<open>for { if err := waitForNtfyMessage(); ... ; time.Sleep(30 * time.Second) }\<close>.
  The loop state counts the calls of the session function and collects the trace;
  \<open>ws i\<close> is what the library and the network answer during call number \<open>i\<close>. A call
  that never returns (the stream stays open) has no next iteration; a call that panics
  ends the process.
\<close>

definition Second :: int where
  "Second = 1000000000"


definition outcome_log :: "error option \<Rightarrow> effect" where
  "outcome_log r =
     (case r of
        Some e \<Rightarrow> Log LevelError ''waitForNtfyMessage'' [(''err'', AErr e)]
      | None \<Rightarrow> Log LevelInfo ''connection closed, restarting'' [])"

definition after_session :: "error option exec \<Rightarrow> effect list" where
  "after_session x =
     (case x of
        Return r \<Rightarrow> [outcome_log r, Sleep (30 * Second)]
      | Panic p \<Rightarrow> [Crash p])"





text \<open>The posts handed to \<^verbatim>\<open>go sendToSlack\<close> in a trace, in order.\<close>

fun dispatched :: "effect list \<Rightarrow> slackMessage option list" where
  "dispatched [] = []"
| "dispatched (Go_sendToSlack p # es) = p # dispatched es"
| "dispatched (e # es) = dispatched es"

section \<open>Example inputs\<close>

text \<open>
  The inbound lines of the specification's scenarios, and what \<^verbatim>\<open>json.Unmarshal\<close>
  makes of them: a titled message, a message without title, a keepalive, and a line
  that is not JSON.
\<close>

definition scenario_A_line :: string where
  \<open>scenario_A_line = ''{"id":"1","time":1000,"event":"message","topic":"t","title":"Alert","message":"disk full"}''\<close>

definition scenario_B_line :: string where
  \<open>scenario_B_line = ''{"id":"2","time":1001,"event":"message","topic":"t","message":"ping"}''\<close>

definition scenario_C_line :: string where
  \<open>scenario_C_line = ''{"event":"keepalive"}''\<close>

definition malformed_line :: string where
  \<open>malformed_line = ''{"id":''\<close>

definition example_Unmarshal :: "string \<Rightarrow> error + ntfyMessage" where
  "example_Unmarshal text =
     (if text = scenario_A_line then
        Inr \<lparr>Id' = ''1'', Time = 1000, Event = ''message'', Topic = ''t'',
             Title = ''Alert'', Message = ''disk full''\<rparr>
      else if text = scenario_B_line then
        Inr \<lparr>Id' = ''2'', Time = 1001, Event = ''message'', Topic = ''t'',
             Title = [], Message = ''ping''\<rparr>
      else if text = scenario_C_line then
        Inr \<lparr>Id' = [], Time = 0, Event = ''keepalive'', Topic = [],
             Title = [], Message = []\<rparr>
      else Inl (lib_error ''unexpected end of JSON input''))"

text \<open>
  A world in which every URL is accepted and every request is answered by the given
  response, and one in which the connection fails. The example encoder is exact on
  texts without a character that JSON escapes.
\<close>

definition example_Marshal :: "slackMessage \<Rightarrow> error + string" where
  \<open>example_Marshal m = Inr (''{"text":"'' @ Text m @ ''"}'')\<close>

definition example_world :: "response \<Rightarrow> world" where
  "example_world resp =
     \<lparr>url_Parse = (\<lambda>url. None), client_Do = (\<lambda>req. Inr resp),
      json_Unmarshal = example_Unmarshal, json_Marshal = example_Marshal\<rparr>"

definition offline_world :: world where
  "offline_world =
     \<lparr>url_Parse = (\<lambda>url. None), client_Do = (\<lambda>req. Inl (lib_error ''connection refused'')),
      json_Unmarshal = example_Unmarshal, json_Marshal = example_Marshal\<rparr>"

definition example_body :: "string \<Rightarrow> error option \<Rightarrow> body" where
  "example_body bytes stop =
     \<lparr>content = bytes, stop_err = stop, stop_with_data = False, close_err = None\<rparr>"

definition example_response :: "int \<Rightarrow> body \<Rightarrow> response" where
  "example_response status b = \<lparr>StatusCode = status, Body = b\<rparr>"

text \<open>
  Scenario F: a malformed line between two valid \<^verbatim>\<open>message\<close> lines.
\<close>

definition scenario_F_stream :: string where
  "scenario_F_stream =
     scenario_A_line @ [CHR 0x0A] @ malformed_line @ [CHR 0x0A] @ scenario_B_line @ [CHR 0x0A]"

definition scenario_F_world :: world where
  "scenario_F_world = example_world (example_response 200 (example_body scenario_F_stream None))"

text \<open>
  A stream whose second line is longer than the scanner's buffer: a titled message, a
  line of 65537 bytes, a message without title.
\<close>

definition oversized_line :: string where
  "oversized_line = replicate 65537 (CHR ''a'')"

definition oversized_stream :: string where
  "oversized_stream =
     scenario_A_line @ [CHR 0x0A] @ oversized_line @ [CHR 0x0A] @ scenario_B_line @ [CHR 0x0A]"

definition oversized_world :: world where
  "oversized_world = example_world (example_response 200 (example_body oversized_stream None))"



text \<open>
  The configuration \<open>main\<close> builds when only the topic and the webhook are set in the
  environment and no flag is given: no credential is configured.
\<close>

definition example_env :: "string \<rightharpoonup> string" where
  "example_env =
     [''NTFY_TOPIC'' \<mapsto> ''alerts'', ''SLACK_WEBHOOK_URL'' \<mapsto> ''https://hooks.example/T'']"

definition example_config :: config where
  "example_config = main_config example_env Map.empty"

section \<open>Properties of the read loop\<close>

subsection \<open>Unfolding the loop, and single calls of \<open>Scan\<close>\<close>

lemma stream_loop_step:
  "Scan s = (True, s') \<Longrightarrow>
   stream_loop w d s = BodyScan # loop_body w d (token s') @ stream_loop w d s'"
  by (subst stream_loop.simps) simp

lemma stream_loop_stop:
  "Scan s = (False, s') \<Longrightarrow> stream_loop w d s = [BodyScan]"
  by (subst stream_loop.simps) simp

lemma takeWhile_line:
  "CHR 0x0A \<notin> set line \<Longrightarrow> takeWhile (\<lambda>c. c \<noteq> CHR 0x0A) (line @ CHR 0x0A # rest) = line"
  by (induction line) auto

lemma Scan_line:
  assumes "CHR 0x0A \<notin> set line" and "length line < MaxScanTokenSize"
  shows "Scan (s\<lparr>unread := line @ CHR 0x0A # rest\<rparr>)
         = (True, s\<lparr>unread := rest, token := dropCR line\<rparr>)"
  using assms by (simp add: Scan_def Let_def takeWhile_line)

lemma length_takeWhile_ge:
  "CHR 0x0A \<notin> set line \<Longrightarrow>
   length line \<le> length (takeWhile (\<lambda>c. c \<noteq> CHR 0x0A) (line @ rest))"
  by (induction line) auto

lemma Scan_too_long:
  assumes "CHR 0x0A \<notin> set line" and "MaxScanTokenSize < length line"
  shows "Scan (s\<lparr>unread := line @ rest\<rparr>)
         = (False, s\<lparr>unread := line @ rest, err := Some ErrTooLong\<rparr>)"
proof -
  let ?tw = "takeWhile (\<lambda>c. c \<noteq> CHR 0x0A) (line @ rest)"
  have "length line \<le> length ?tw" using assms(1) by (rule length_takeWhile_ge)
  with assms(2) have big: "MaxScanTokenSize < length ?tw" by simp
  have "length ?tw \<le> length (line @ rest)" by (rule length_takeWhile_le)
  with big have big2: "MaxScanTokenSize < length line + length rest" by simp
  have ne: "line \<noteq> []" using assms(2) by auto
  show ?thesis using big big2 ne by (simp add: Scan_def Let_def)
qed

lemma Scan_end:
  "Scan (s\<lparr>unread := []\<rparr>) = (False, s\<lparr>unread := [], err := rd_err s\<rparr>)"
  by (simp add: Scan_def)

lemma dispatched_append: "dispatched (xs @ ys) = dispatched xs @ dispatched ys"
  by (induction xs rule: dispatched.induct) auto

text \<open>
  The loop reads neither how the reader stopped nor \<^verbatim>\<open>scanner.Err()\<close>: two scanners
  with the same unread bytes give the same trace.
\<close>

lemma stream_loop_same:
  "unread s = unread t \<Longrightarrow> rd_with_data s = rd_with_data t \<Longrightarrow>
   stream_loop w d s = stream_loop w d t"
proof (induction w d s arbitrary: t rule: stream_loop.induct)
  case (1 w d s)
  show ?case
  proof (cases "fst (Scan s)")
    case True
    then obtain s' where s': "Scan s = (True, s')" by (cases "Scan s") auto
    obtain t' where t': "Scan t = (True, t')" "unread t' = unread s'"
        "rd_with_data t' = rd_with_data s'" "token t' = token s'"
      using s' 1(2,3) by (auto simp: Scan_def Let_def split: if_splits)
    have "stream_loop w d s' = stream_loop w d t'"
      using 1(1)[OF s'[symmetric] refl, of t'] t' by simp
    then show ?thesis using s' t' by (simp add: stream_loop_step)
  next
    case False
    then obtain s' where s': "Scan s = (False, s')" by (cases "Scan s") auto
    obtain t' where t': "Scan t = (False, t')"
      using s' 1(2,3) by (auto simp: Scan_def Let_def split: if_splits)
    show ?thesis using s' t' by (simp add: stream_loop_stop)
  qed
qed

subsection \<open>Message events\<close>

text \<open>
  C1. When the line just scanned decodes to an event of kind \<^verbatim>\<open>message\<close>, the loop
  body hands exactly one post to \<^verbatim>\<open>go sendToSlack\<close>, and its text is
  \<^verbatim>\<open>"**" + title + "**: " + body\<close> when the title is not empty and the body itself,
  with nothing added, when the title is empty. That post is the first the rest of the
  session dispatches.
\<close>

theorem message_post_text:
  assumes "Scan s = (True, s')"
    and "json_Unmarshal w (token s') = Inr msg"
    and "Event msg = ''message''"
  shows "dispatched (loop_body w domain (token s'))
           = [Some \<lparr>Text = (if Title msg \<noteq> [] then ''**'' @ Title msg @ ''**: '' @ Message msg
                            else Message msg)\<rparr>]
       \<and> dispatched (stream_loop w domain s)
           = Some \<lparr>Text = (if Title msg \<noteq> [] then ''**'' @ Title msg @ ''**: '' @ Message msg
                           else Message msg)\<rparr>
             # dispatched (stream_loop w domain s')"
proof -
  have body: "dispatched (loop_body w domain (token s'))
           = [Some \<lparr>Text = (if Title msg \<noteq> [] then ''**'' @ Title msg @ ''**: '' @ Message msg
                            else Message msg)\<rparr>]"
    using assms(2,3) by (simp add: loop_body_def)
  have "dispatched (stream_loop w domain s)
          = dispatched (loop_body w domain (token s')) @ dispatched (stream_loop w domain s')"
    using assms(1) by (simp add: stream_loop_step dispatched_append)
  with body show ?thesis by simp
qed

theorem message_post_text_witness:
  "Scan (NewScanner (example_body (scenario_A_line @ [CHR 0x0A]) None))
     = (True, snd (Scan (NewScanner (example_body (scenario_A_line @ [CHR 0x0A]) None))))
   \<and> json_Unmarshal scenario_F_world scenario_A_line
     = Inr \<lparr>Id' = ''1'', Time = 1000, Event = ''message'', Topic = ''t'',
            Title = ''Alert'', Message = ''disk full''\<rparr>
   \<and> dispatched (loop_body scenario_F_world ''ntfy.sh'' scenario_A_line)
     = [Some \<lparr>Text = ''**Alert**: disk full''\<rparr>]
   \<and> Scan (NewScanner (example_body (scenario_B_line @ [CHR 0x0A]) None))
     = (True, snd (Scan (NewScanner (example_body (scenario_B_line @ [CHR 0x0A]) None))))
   \<and> json_Unmarshal scenario_F_world scenario_B_line
     = Inr \<lparr>Id' = ''2'', Time = 1001, Event = ''message'', Topic = ''t'',
            Title = [], Message = ''ping''\<rparr>
   \<and> dispatched (loop_body scenario_F_world ''ntfy.sh'' scenario_B_line)
     = [Some \<lparr>Text = ''ping''\<rparr>]"
proof -
  let ?sA = "NewScanner (example_body (scenario_A_line @ [CHR 0x0A]) None)"
  let ?sB = "NewScanner (example_body (scenario_B_line @ [CHR 0x0A]) None)"
  let ?mA = "\<lparr>Id' = ''1'', Time = 1000, Event = ''message'', Topic = ''t'',
            Title = ''Alert'', Message = ''disk full''\<rparr>"
  let ?mB = "\<lparr>Id' = ''2'', Time = 1001, Event = ''message'', Topic = ''t'',
            Title = [], Message = ''ping''\<rparr>"
  have scanA: "Scan ?sA = (True, snd (Scan ?sA))"
    by (simp add: Scan_def NewScanner_def example_body_def scenario_A_line_def
        MaxScanTokenSize_def Let_def)
  have tokA: "token (snd (Scan ?sA)) = scenario_A_line"
    by (simp add: Scan_def NewScanner_def example_body_def scenario_A_line_def
        MaxScanTokenSize_def Let_def dropCR_def)
  have decA: "json_Unmarshal scenario_F_world (token (snd (Scan ?sA))) = Inr ?mA"
    unfolding tokA by (simp add: scenario_F_world_def example_world_def example_Unmarshal_def)
  have scanB: "Scan ?sB = (True, snd (Scan ?sB))"
    by (simp add: Scan_def NewScanner_def example_body_def scenario_B_line_def
        MaxScanTokenSize_def Let_def)
  have tokB: "token (snd (Scan ?sB)) = scenario_B_line"
    by (simp add: Scan_def NewScanner_def example_body_def scenario_B_line_def
        MaxScanTokenSize_def Let_def dropCR_def)
  have decB: "json_Unmarshal scenario_F_world (token (snd (Scan ?sB))) = Inr ?mB"
    unfolding tokB
    by (simp add: scenario_F_world_def example_world_def example_Unmarshal_def
        scenario_A_line_def scenario_B_line_def)
  from message_post_text [OF scanA decA, of "''ntfy.sh''"]
  have A: "dispatched (loop_body scenario_F_world ''ntfy.sh'' scenario_A_line)
     = [Some \<lparr>Text = ''**Alert**: disk full''\<rparr>]"
    unfolding tokA by simp
  from message_post_text [OF scanB decB, of "''ntfy.sh''"]
  have B: "dispatched (loop_body scenario_F_world ''ntfy.sh'' scenario_B_line)
     = [Some \<lparr>Text = ''ping''\<rparr>]"
    unfolding tokB by simp
  show ?thesis using scanA decA scanB decB A B unfolding tokA tokB by simp
qed

subsection \<open>Lines that do not decode\<close>

text \<open>
  C3. When the line just scanned fails to decode, the loop logs the error and goes on
  with the next call of \<open>Scan\<close> on the same scanner: the session is not ended, nothing
  is dispatched for that line, and what the rest of the stream dispatches is dispatched
  all the same. With C1 for the line before, a malformed line between two valid
  \<^verbatim>\<open>message\<close> lines leaves both dispatched (the example after the theorem runs scenario F).
\<close>

theorem malformed_line_skipped:
  assumes "Scan s = (True, s')"
    and "json_Unmarshal w (token s') = Inl e"
  shows "stream_loop w domain s
           = BodyScan
             # Log LevelError ''error while processing ntfy message''
                 [(''err'', AErr e), (''text'', AStr (token s'))]
             # stream_loop w domain s'
       \<and> dispatched (stream_loop w domain s) = dispatched (stream_loop w domain s')"
proof -
  have "loop_body w domain (token s')
          = [Log LevelError ''error while processing ntfy message''
               [(''err'', AErr e), (''text'', AStr (token s'))]]"
    using assms(2) by (simp add: loop_body_def)
  then show ?thesis using assms(1) by (simp add: stream_loop_step)
qed

lemma scenario_F_first_scan:
  "Scan (NewScanner (example_body scenario_F_stream None))
     = (True, \<lparr>unread = malformed_line @ [CHR 0x0A] @ scenario_B_line @ [CHR 0x0A],
               rd_err = None, rd_with_data = False, token = scenario_A_line, err = None\<rparr>)"
  by (simp add: Scan_def NewScanner_def example_body_def scenario_F_stream_def
      scenario_A_line_def MaxScanTokenSize_def Let_def dropCR_def)

lemma scenario_F_second_scan:
  "Scan \<lparr>unread = malformed_line @ [CHR 0x0A] @ scenario_B_line @ [CHR 0x0A],
          rd_err = None, rd_with_data = False, token = scenario_A_line, err = None\<rparr>
     = (True, \<lparr>unread = scenario_B_line @ [CHR 0x0A],
               rd_err = None, rd_with_data = False, token = malformed_line, err = None\<rparr>)"
  by (simp add: Scan_def malformed_line_def MaxScanTokenSize_def Let_def dropCR_def)

lemma scenario_F_third_scan:
  "Scan \<lparr>unread = scenario_B_line @ [CHR 0x0A],
          rd_err = None, rd_with_data = False, token = malformed_line, err = None\<rparr>
     = (True, \<lparr>unread = [],
               rd_err = None, rd_with_data = False, token = scenario_B_line, err = None\<rparr>)"
  by (simp add: Scan_def scenario_B_line_def MaxScanTokenSize_def Let_def dropCR_def)

lemma scenario_F_last_scan:
  "Scan \<lparr>unread = [], rd_err = None, rd_with_data = False, token = scenario_B_line, err = None\<rparr>
     = (False, \<lparr>unread = [], rd_err = None, rd_with_data = False, token = scenario_B_line,
                err = None\<rparr>)"
  by (simp add: Scan_def)

lemma scenario_F_malformed:
  "json_Unmarshal scenario_F_world malformed_line = Inl (lib_error ''unexpected end of JSON input'')"
  by (simp add: scenario_F_world_def example_world_def example_Unmarshal_def malformed_line_def
      scenario_A_line_def scenario_B_line_def scenario_C_line_def)

theorem malformed_line_skipped_witness:
  "Scan \<lparr>unread = malformed_line @ [CHR 0x0A] @ scenario_B_line @ [CHR 0x0A],
          rd_err = None, rd_with_data = False, token = scenario_A_line, err = None\<rparr>
     = (True, \<lparr>unread = scenario_B_line @ [CHR 0x0A],
               rd_err = None, rd_with_data = False, token = malformed_line, err = None\<rparr>)
   \<and> json_Unmarshal scenario_F_world malformed_line = Inl (lib_error ''unexpected end of JSON input'')
   \<and> dispatched (stream_loop scenario_F_world ''ntfy.sh''
        (NewScanner (example_body scenario_F_stream None)))
     = [Some \<lparr>Text = ''**Alert**: disk full''\<rparr>, Some \<lparr>Text = ''ping''\<rparr>]"
proof -
  let ?s1 = "\<lparr>unread = malformed_line @ [CHR 0x0A] @ scenario_B_line @ [CHR 0x0A],
          rd_err = None, rd_with_data = False, token = scenario_A_line, err = None\<rparr>"
  let ?s2 = "\<lparr>unread = scenario_B_line @ [CHR 0x0A],
               rd_err = None, rd_with_data = False, token = malformed_line, err = None\<rparr>"
  let ?s3 = "\<lparr>unread = [], rd_err = None, rd_with_data = False, token = scenario_B_line,
               err = None\<rparr>"
  have bad: "json_Unmarshal scenario_F_world (token ?s2)
               = Inl (lib_error ''unexpected end of JSON input'')"
    using scenario_F_malformed by simp
  have skip: "dispatched (stream_loop scenario_F_world ''ntfy.sh'' ?s1)
                = dispatched (stream_loop scenario_F_world ''ntfy.sh'' ?s2)"
    using malformed_line_skipped [OF scenario_F_second_scan bad] by simp
  have A: "dispatched (loop_body scenario_F_world ''ntfy.sh'' scenario_A_line)
             = [Some \<lparr>Text = ''**Alert**: disk full''\<rparr>]"
    by (simp add: loop_body_def scenario_F_world_def example_world_def example_Unmarshal_def)
  have B: "dispatched (loop_body scenario_F_world ''ntfy.sh'' scenario_B_line)
             = [Some \<lparr>Text = ''ping''\<rparr>]"
    by (simp add: loop_body_def scenario_F_world_def example_world_def example_Unmarshal_def
        scenario_A_line_def scenario_B_line_def)
  have first: "dispatched (stream_loop scenario_F_world ''ntfy.sh''
                  (NewScanner (example_body scenario_F_stream None)))
                = Some \<lparr>Text = ''**Alert**: disk full''\<rparr>
                  # dispatched (stream_loop scenario_F_world ''ntfy.sh'' ?s1)"
    using A by (simp add: stream_loop_step [OF scenario_F_first_scan] dispatched_append)
  have third: "dispatched (stream_loop scenario_F_world ''ntfy.sh'' ?s2)
                = [Some \<lparr>Text = ''ping''\<rparr>]"
    using B
    by (simp add: stream_loop_step [OF scenario_F_third_scan]
        stream_loop_stop [OF scenario_F_last_scan] dispatched_append)
  show ?thesis
    using scenario_F_second_scan scenario_F_malformed first skip third by simp
qed

subsection \<open>Events that are not messages\<close>

text \<open>
  C4. When the line just scanned decodes to an event whose kind is not \<^verbatim>\<open>message\<close>
  (\<^verbatim>\<open>open\<close>, \<^verbatim>\<open>keepalive\<close>, or anything else), the loop body makes one log call and
  starts no delivery, and the loop goes on with the next call of \<open>Scan\<close> on the same
  scanner.
\<close>

theorem other_events_not_dispatched:
  assumes "Scan s = (True, s')"
    and "json_Unmarshal w (token s') = Inr msg"
    and "Event msg \<noteq> ''message''"
  shows "loop_body w domain (token s')
           = [if Event msg = ''open''
                then Log LevelInfo ''subscription established'' [(''domain'', AStr domain)]
              else if Event msg = ''keepalive''
                then Log LevelDebug ''keepalive'' []
              else Log LevelWarn ''bad message received'' [(''message'', AStr (token s'))]]
       \<and> dispatched (loop_body w domain (token s')) = []
       \<and> stream_loop w domain s
           = BodyScan # loop_body w domain (token s') @ stream_loop w domain s'"
  using assms by (simp add: loop_body_def stream_loop_step)

theorem other_events_not_dispatched_witness:
  "Scan (NewScanner (example_body (scenario_C_line @ [CHR 0x0A]) None))
     = (True, \<lparr>unread = [], rd_err = None, rd_with_data = False, token = scenario_C_line,
               err = None\<rparr>)
   \<and> json_Unmarshal scenario_F_world scenario_C_line
     = Inr \<lparr>Id' = [], Time = 0, Event = ''keepalive'', Topic = [], Title = [], Message = []\<rparr>
   \<and> ''keepalive'' \<noteq> ''message''
   \<and> stream_loop scenario_F_world ''ntfy.sh''
        (NewScanner (example_body (scenario_C_line @ [CHR 0x0A]) None))
     = [BodyScan, Log LevelDebug ''keepalive'' [], BodyScan]"
proof -
  let ?s = "NewScanner (example_body (scenario_C_line @ [CHR 0x0A]) None)"
  let ?s' = "\<lparr>unread = [], rd_err = None, rd_with_data = False, token = scenario_C_line,
               err = None\<rparr>"
  let ?m = "\<lparr>Id' = [], Time = 0, Event = ''keepalive'', Topic = [], Title = [], Message = []\<rparr>"
  have scan: "Scan ?s = (True, ?s')"
    by (simp add: Scan_def NewScanner_def example_body_def scenario_C_line_def
        MaxScanTokenSize_def Let_def dropCR_def)
  have dec: "json_Unmarshal scenario_F_world (token ?s') = Inr ?m"
    by (simp add: scenario_F_world_def example_world_def example_Unmarshal_def
        scenario_A_line_def scenario_B_line_def scenario_C_line_def)
  have ne: "Event ?m \<noteq> ''message''" by simp
  have last: "Scan ?s' = (False, ?s')" by (simp add: Scan_def)
  from other_events_not_dispatched [OF scan dec ne, of "''ntfy.sh''"]
  have "stream_loop scenario_F_world ''ntfy.sh'' ?s
          = [BodyScan, Log LevelDebug ''keepalive'' [], BodyScan]"
    by (simp add: stream_loop_stop [OF last])
  then show ?thesis using scan dec by simp
qed

section \<open>Properties of the session function\<close>

subsection \<open>The request\<close>

lemma loop_body_no_request: "ClientDo r \<notin> set (loop_body w d text)"
  by (simp add: loop_body_def split: sum.splits)

lemma stream_loop_no_request: "ClientDo r \<notin> set (stream_loop w d s)"
proof (induction w d s rule: stream_loop.induct)
  case (1 w d s)
  show ?case
  proof (cases "fst (Scan s)")
    case True
    then obtain s' where s': "Scan s = (True, s')" by (cases "Scan s") auto
    have "ClientDo r \<notin> set (stream_loop w d s')"
      using 1 [OF s'[symmetric] refl] by simp
    then show ?thesis using s' by (simp add: stream_loop_step loop_body_no_request)
  next
    case False
    then obtain s' where s': "Scan s = (False, s')" by (cases "Scan s") auto
    then show ?thesis by (simp add: stream_loop_stop)
  qed
qed

text \<open>
  Whenever the session function hands a request to the HTTP client, both pointers are
  set, the URL passed the check of \<^verbatim>\<open>http.NewRequest\<close>, and the request is a GET of
  \<^verbatim>\<open>"https://" + host + "/" + topic + "/json"\<close> without a body; it has the one header
  \<^verbatim>\<open>Authorization: Bearer ...\<close> when the pointer \<^verbatim>\<open>ntfyAuth\<close> is not nil and no header
  when it is nil.
\<close>

lemma waitForNtfyMessage_request:
  assumes "ClientDo req \<in> set (snd (waitForNtfyMessage w cfg))"
  shows "\<exists>d t. ntfyDomain cfg = Some d \<and> ntfyTopic cfg = Some t
           \<and> url_Parse w (''https://'' @ d @ ''/'' @ t @ ''/json'') = None
           \<and> req = \<lparr>Method = ''GET'', URL = ''https://'' @ d @ ''/'' @ t @ ''/json'',
                    Header = (case ntfyAuth cfg of
                                None \<Rightarrow> []
                              | Some auth \<Rightarrow> [(''Authorization'', ''Bearer '' @ auth)]),
                    ReqBody = None\<rparr>"
  using assms
  by (auto simp: waitForNtfyMessage_def http_NewRequest_def Header_Add_def Let_def
        stream_loop_no_request
      split: option.splits sum.splits if_splits)

lemma waitForNtfyMessage_200:
  assumes "ntfyDomain cfg = Some d"
    and "ClientDo req \<in> set (snd (waitForNtfyMessage w cfg))"
    and "client_Do w req = Inr resp"
    and "StatusCode resp = 200"
  shows "waitForNtfyMessage w cfg
           = (Return None, ClientDo req # stream_loop w d (NewScanner (Body resp)) @ [BodyClose])"
proof -
  from waitForNtfyMessage_request [OF assms(2)] assms(1)
  obtain t where t: "ntfyTopic cfg = Some t"
    and url: "url_Parse w (''https://'' @ d @ ''/'' @ t @ ''/json'') = None"
    and req: "req = \<lparr>Method = ''GET'', URL = ''https://'' @ d @ ''/'' @ t @ ''/json'',
                    Header = (case ntfyAuth cfg of
                                None \<Rightarrow> []
                              | Some auth \<Rightarrow> [(''Authorization'', ''Bearer '' @ auth)]),
                    ReqBody = None\<rparr>"
    by auto
  show ?thesis
  proof (cases "ntfyAuth cfg")
    case None
    with assms(1,3,4) t url req show ?thesis
      by (simp add: waitForNtfyMessage_def http_NewRequest_def)
  next
    case (Some auth)
    with assms(1,3,4) t url req show ?thesis
      by (simp add: waitForNtfyMessage_def http_NewRequest_def Header_Add_def)
  qed
qed

lemma waitForNtfyMessage_not_200:
  assumes "ntfyDomain cfg = Some d"
    and "ClientDo req \<in> set (snd (waitForNtfyMessage w cfg))"
    and "client_Do w req = Inr resp"
    and "StatusCode resp \<noteq> 200"
  shows "waitForNtfyMessage w cfg
           = (Return (Some (errors_New ''invalid response code from ntfy'')),
              [ClientDo req,
               Log LevelError ''invalid status code''
                 [(''expected'', AInt 200), (''domain'', AStr d),
                  (''statusCode'', AStr (FormatInt (StatusCode resp)))]])"
proof -
  from waitForNtfyMessage_request [OF assms(2)] assms(1)
  obtain t where t: "ntfyTopic cfg = Some t"
    and url: "url_Parse w (''https://'' @ d @ ''/'' @ t @ ''/json'') = None"
    and req: "req = \<lparr>Method = ''GET'', URL = ''https://'' @ d @ ''/'' @ t @ ''/json'',
                    Header = (case ntfyAuth cfg of
                                None \<Rightarrow> []
                              | Some auth \<Rightarrow> [(''Authorization'', ''Bearer '' @ auth)]),
                    ReqBody = None\<rparr>"
    by auto
  show ?thesis
  proof (cases "ntfyAuth cfg")
    case None
    with assms(1,3,4) t url req show ?thesis
      by (simp add: waitForNtfyMessage_def http_NewRequest_def)
  next
    case (Some auth)
    with assms(1,3,4) t url req show ?thesis
      by (simp add: waitForNtfyMessage_def http_NewRequest_def Header_Add_def)
  qed
qed

subsection \<open>How a streaming session ends\<close>

text \<open>
  C9. When the request was answered with status 200, the session function returns nil,
  whatever the body holds and however its reader stops. Its trace is the request, the
  read loop and the deferred close, and the read loop does on a body whose reader fails
  what it does on the same bytes ended by EOF: a read error is not surfaced.
\<close>

theorem streaming_session_returns_nil:
  assumes "ntfyDomain cfg = Some d"
    and "ClientDo req \<in> set (snd (waitForNtfyMessage w cfg))"
    and "client_Do w req = Inr resp"
    and "StatusCode resp = 200"
  shows "fst (waitForNtfyMessage w cfg) = Return None
       \<and> snd (waitForNtfyMessage w cfg)
           = ClientDo req # stream_loop w d (NewScanner (Body resp)) @ [BodyClose]
       \<and> stream_loop w d (NewScanner (Body resp))
           = stream_loop w d (NewScanner ((Body resp)\<lparr>stop_err := None\<rparr>))"
proof -
  have "stream_loop w d (NewScanner (Body resp))
          = stream_loop w d (NewScanner ((Body resp)\<lparr>stop_err := None\<rparr>))"
    by (rule stream_loop_same) (simp_all add: NewScanner_def)
  then show ?thesis using waitForNtfyMessage_200 [OF assms] by simp
qed

lemma example_config_fields:
  "example_config
     = \<lparr>ntfyDomain = Some ''ntfy.sh'', ntfyTopic = Some ''alerts'', ntfyAuth = Some [],
        slackWebhookUrl = Some ''https://hooks.example/T''\<rparr>"
  by (simp add: example_config_def main_config_def LookupEnv_def flag_String_def
      example_env_def upstreamNtfyServer_def)

lemma example_request_issued:
  "ClientDo \<lparr>Method = ''GET'', URL = ''https://ntfy.sh/alerts/json'',
             Header = [(''Authorization'', ''Bearer '')], ReqBody = None\<rparr>
     \<in> set (snd (waitForNtfyMessage (example_world resp) example_config))"
  by (simp add: waitForNtfyMessage_def example_config_fields example_world_def
      http_NewRequest_def Header_Add_def Let_def)

theorem streaming_session_returns_nil_witness:
  "ntfyDomain example_config = Some ''ntfy.sh''
   \<and> ClientDo \<lparr>Method = ''GET'', URL = ''https://ntfy.sh/alerts/json'',
               Header = [(''Authorization'', ''Bearer '')], ReqBody = None\<rparr>
       \<in> set (snd (waitForNtfyMessage
                   (example_world (example_response 200
                      (example_body (scenario_A_line @ [CHR 0x0A])
                         (Some (lib_error ''unexpected EOF'')))))
                   example_config))
   \<and> StatusCode (example_response 200
         (example_body (scenario_A_line @ [CHR 0x0A]) (Some (lib_error ''unexpected EOF'')))) = 200
   \<and> fst (waitForNtfyMessage
            (example_world (example_response 200
               (example_body (scenario_A_line @ [CHR 0x0A])
                  (Some (lib_error ''unexpected EOF'')))))
            example_config) = Return None"
proof -
  let ?resp = "example_response 200
     (example_body (scenario_A_line @ [CHR 0x0A]) (Some (lib_error ''unexpected EOF'')))"
  let ?req = "\<lparr>Method = ''GET'', URL = ''https://ntfy.sh/alerts/json'',
             Header = [(''Authorization'', ''Bearer '')], ReqBody = None\<rparr>"
  have d: "ntfyDomain example_config = Some ''ntfy.sh''"
    by (simp add: example_config_fields)
  have issued: "ClientDo ?req \<in> set (snd (waitForNtfyMessage (example_world ?resp) example_config))"
    by (rule example_request_issued)
  have answer: "client_Do (example_world ?resp) ?req = Inr ?resp"
    by (simp add: example_world_def)
  have ok: "StatusCode ?resp = 200"
    by (simp add: example_response_def)
  from streaming_session_returns_nil [OF d issued answer ok]
  have "fst (waitForNtfyMessage (example_world ?resp) example_config) = Return None"
    by simp
  with d issued ok show ?thesis by simp
qed

subsection \<open>A line too long for the scanner\<close>

lemma stream_loop_token:
  "stream_loop w d (s\<lparr>unread := u, token := x\<rparr>) = stream_loop w d (s\<lparr>unread := u\<rparr>)"
  by (rule stream_loop_same) simp_all

lemma stream_loop_lines:
  assumes "\<forall>l \<in> set ls. CHR 0x0A \<notin> set l \<and> length l < MaxScanTokenSize"
  shows "stream_loop w d (s\<lparr>unread := concat (map (\<lambda>l. l @ [CHR 0x0A]) ls) @ rest\<rparr>)
           = concat (map (\<lambda>l. BodyScan # loop_body w d (dropCR l)) ls)
             @ stream_loop w d (s\<lparr>unread := rest\<rparr>)"
  using assms
proof (induction ls arbitrary: s)
  case Nil
  then show ?case by simp
next
  case (Cons l ls)
  let ?tail = "concat (map (\<lambda>l. l @ [CHR 0x0A]) ls) @ rest"
  have l: "CHR 0x0A \<notin> set l" "length l < MaxScanTokenSize" using Cons.prems by auto
  have scan: "Scan (s\<lparr>unread := l @ CHR 0x0A # ?tail\<rparr>)
                = (True, s\<lparr>unread := ?tail, token := dropCR l\<rparr>)"
    using l by (rule Scan_line)
  have "stream_loop w d (s\<lparr>unread := l @ CHR 0x0A # ?tail\<rparr>)
          = BodyScan # loop_body w d (dropCR l)
            @ stream_loop w d (s\<lparr>unread := ?tail, token := dropCR l\<rparr>)"
    using stream_loop_step [OF scan] by simp
  also have "stream_loop w d (s\<lparr>unread := ?tail, token := dropCR l\<rparr>)
          = stream_loop w d (s\<lparr>unread := ?tail\<rparr>)"
    by (rule stream_loop_token)
  also have "\<dots> = concat (map (\<lambda>l. BodyScan # loop_body w d (dropCR l)) ls)
             @ stream_loop w d (s\<lparr>unread := rest\<rparr>)"
    using Cons.IH [of s] Cons.prems by simp
  finally show ?case by simp
qed

text \<open>
  C10. The body holds complete lines \<open>ls\<close> (each within the token size), then a line
  of more than \<open>MaxScanTokenSize\<close> bytes without a newline, then anything (\<open>rest\<close>).
  The lines before are processed; at the long line \<open>Scan\<close> returns false, the loop ends,
  and the session function returns nil: neither the long line nor anything after it is
  decoded, logged or dispatched. The supervisory loop then logs
  \<^verbatim>\<open>connection closed, restarting\<close> and sleeps as after any clean return.
\<close>

theorem oversized_line_ends_session:
  assumes "ntfyDomain cfg = Some d"
    and "ClientDo req \<in> set (snd (waitForNtfyMessage w cfg))"
    and "client_Do w req = Inr resp"
    and "StatusCode resp = 200"
    and "content (Body resp) = concat (map (\<lambda>l. l @ [CHR 0x0A]) ls) @ line @ rest"
    and "\<forall>l \<in> set ls. CHR 0x0A \<notin> set l \<and> length l < MaxScanTokenSize"
    and "CHR 0x0A \<notin> set line"
    and "MaxScanTokenSize < length line"
  shows "waitForNtfyMessage w cfg
           = (Return None,
              ClientDo req # concat (map (\<lambda>l. BodyScan # loop_body w d (dropCR l)) ls)
              @ [BodyScan, BodyClose])
       \<and> after_session (fst (waitForNtfyMessage w cfg))
           = [Log LevelInfo ''connection closed, restarting'' [], Sleep (30 * Second)]"
proof -
  let ?s = "NewScanner (Body resp)"
  have s: "?s = ?s\<lparr>unread := concat (map (\<lambda>l. l @ [CHR 0x0A]) ls) @ line @ rest\<rparr>"
    using assms(5) by (simp add: NewScanner_def)
  have stop: "stream_loop w d (?s\<lparr>unread := line @ rest\<rparr>) = [BodyScan]"
    using Scan_too_long [OF assms(7,8)] by (rule stream_loop_stop)
  have "stream_loop w d ?s
          = concat (map (\<lambda>l. BodyScan # loop_body w d (dropCR l)) ls)
            @ stream_loop w d (?s\<lparr>unread := line @ rest\<rparr>)"
    by (subst s) (rule stream_loop_lines [OF assms(6)])
  with stop have "stream_loop w d ?s
          = concat (map (\<lambda>l. BodyScan # loop_body w d (dropCR l)) ls) @ [BodyScan]"
    by simp
  then show ?thesis
    using waitForNtfyMessage_200 [OF assms(1-4)]
    by (simp add: after_session_def outcome_log_def)
qed

theorem oversized_line_ends_session_witness:
  "ntfyDomain example_config = Some ''ntfy.sh''
   \<and> ClientDo \<lparr>Method = ''GET'', URL = ''https://ntfy.sh/alerts/json'',
               Header = [(''Authorization'', ''Bearer '')], ReqBody = None\<rparr>
       \<in> set (snd (waitForNtfyMessage oversized_world example_config))
   \<and> oversized_stream
       = concat (map (\<lambda>l. l @ [CHR 0x0A]) [scenario_A_line]) @ oversized_line
         @ (CHR 0x0A # scenario_B_line @ [CHR 0x0A])
   \<and> CHR 0x0A \<notin> set scenario_A_line \<and> length scenario_A_line < MaxScanTokenSize
   \<and> CHR 0x0A \<notin> set oversized_line
   \<and> MaxScanTokenSize < length oversized_line
   \<and> waitForNtfyMessage oversized_world example_config
       = (Return None,
          [ClientDo \<lparr>Method = ''GET'', URL = ''https://ntfy.sh/alerts/json'',
                     Header = [(''Authorization'', ''Bearer '')], ReqBody = None\<rparr>,
           BodyScan,
           Log LevelInfo ''sending message''
             [(''title'', AStr ''Alert''), (''message'', AStr ''disk full'')],
           Go_sendToSlack (Some \<lparr>Text = ''**Alert**: disk full''\<rparr>),
           BodyScan, BodyClose])"
proof -
  let ?resp = "example_response 200 (example_body oversized_stream None)"
  let ?req = "\<lparr>Method = ''GET'', URL = ''https://ntfy.sh/alerts/json'',
             Header = [(''Authorization'', ''Bearer '')], ReqBody = None\<rparr>"
  have d: "ntfyDomain example_config = Some ''ntfy.sh''"
    by (simp add: example_config_fields)
  have issued: "ClientDo ?req \<in> set (snd (waitForNtfyMessage oversized_world example_config))"
    unfolding oversized_world_def by (rule example_request_issued)
  have answer: "client_Do oversized_world ?req = Inr ?resp"
    by (simp add: oversized_world_def example_world_def)
  have ok: "StatusCode ?resp = 200"
    by (simp add: example_response_def)
  have split: "content (Body ?resp)
       = concat (map (\<lambda>l. l @ [CHR 0x0A]) [scenario_A_line]) @ oversized_line
         @ (CHR 0x0A # scenario_B_line @ [CHR 0x0A])"
    by (simp add: example_response_def example_body_def oversized_stream_def)
  have A: "CHR 0x0A \<notin> set scenario_A_line \<and> length scenario_A_line < MaxScanTokenSize"
    by (simp add: scenario_A_line_def MaxScanTokenSize_def)
  then have lines: "\<forall>l \<in> set [scenario_A_line]. CHR 0x0A \<notin> set l \<and> length l < MaxScanTokenSize"
    by simp
  have nonl: "CHR 0x0A \<notin> set oversized_line"
    by (simp add: oversized_line_def)
  have long: "MaxScanTokenSize < length oversized_line"
    by (simp add: oversized_line_def MaxScanTokenSize_def)
  have body: "loop_body oversized_world ''ntfy.sh'' (dropCR scenario_A_line)
       = [Log LevelInfo ''sending message''
            [(''title'', AStr ''Alert''), (''message'', AStr ''disk full'')],
          Go_sendToSlack (Some \<lparr>Text = ''**Alert**: disk full''\<rparr>)]"
    by (simp add: loop_body_def oversized_world_def example_world_def example_Unmarshal_def
        dropCR_def scenario_A_line_def)
  from oversized_line_ends_session [OF d issued answer ok split lines nonl long]
  have "waitForNtfyMessage oversized_world example_config
       = (Return None,
          [ClientDo ?req, BodyScan,
           Log LevelInfo ''sending message''
             [(''title'', AStr ''Alert''), (''message'', AStr ''disk full'')],
           Go_sendToSlack (Some \<lparr>Text = ''**Alert**: disk full''\<rparr>),
           BodyScan, BodyClose])"
    by (simp add: body)
  with d issued split A nonl long show ?thesis
    by (simp only: example_response_def example_body_def body.simps response.simps simp_thms)
qed

subsection \<open>A response that is not 200\<close>

text \<open>
  C6, as the code has it. When the request was answered with a status other than 200,
  the session function returns the error \<^verbatim>\<open>invalid response code from ntfy\<close>, the same
  for every status; the status code goes into the \<^verbatim>\<open>statusCode\<close> attribute of the
  error log entry only. The body is not read: the trace holds neither a scan nor a
  \<^verbatim>\<open>ReadAll\<close>.
\<close>

theorem non_200_fixed_error:
  assumes "ntfyDomain cfg = Some d"
    and "ClientDo req \<in> set (snd (waitForNtfyMessage w cfg))"
    and "client_Do w req = Inr resp"
    and "StatusCode resp \<noteq> 200"
  shows "fst (waitForNtfyMessage w cfg)
           = Return (Some (errors_New ''invalid response code from ntfy''))
       \<and> Log LevelError ''invalid status code''
           [(''expected'', AInt 200), (''domain'', AStr d),
            (''statusCode'', AStr (FormatInt (StatusCode resp)))]
           \<in> set (snd (waitForNtfyMessage w cfg))
       \<and> BodyScan \<notin> set (snd (waitForNtfyMessage w cfg))
       \<and> ReadAll \<notin> set (snd (waitForNtfyMessage w cfg))"
  using waitForNtfyMessage_not_200 [OF assms] by simp

lemma FormatInt_401: "FormatInt 401 = ''401''"
  by code_simp

theorem non_200_fixed_error_witness:
  "ntfyDomain example_config = Some ''ntfy.sh''
   \<and> ClientDo \<lparr>Method = ''GET'', URL = ''https://ntfy.sh/alerts/json'',
               Header = [(''Authorization'', ''Bearer '')], ReqBody = None\<rparr>
       \<in> set (snd (waitForNtfyMessage
                   (example_world (example_response 401 (example_body [] None))) example_config))
   \<and> StatusCode (example_response 401 (example_body [] None)) \<noteq> 200
   \<and> fst (waitForNtfyMessage
            (example_world (example_response 401 (example_body [] None))) example_config)
       = Return (Some (errors_New ''invalid response code from ntfy''))
   \<and> Log LevelError ''invalid status code''
       [(''expected'', AInt 200), (''domain'', AStr ''ntfy.sh''), (''statusCode'', AStr ''401'')]
       \<in> set (snd (waitForNtfyMessage
                   (example_world (example_response 401 (example_body [] None))) example_config))"
proof -
  let ?resp = "example_response 401 (example_body [] None)"
  let ?req = "\<lparr>Method = ''GET'', URL = ''https://ntfy.sh/alerts/json'',
             Header = [(''Authorization'', ''Bearer '')], ReqBody = None\<rparr>"
  have d: "ntfyDomain example_config = Some ''ntfy.sh''"
    by (simp add: example_config_fields)
  have issued: "ClientDo ?req \<in> set (snd (waitForNtfyMessage (example_world ?resp) example_config))"
    by (rule example_request_issued)
  have answer: "client_Do (example_world ?resp) ?req = Inr ?resp"
    by (simp add: example_world_def)
  have status: "StatusCode ?resp = 401"
    by (simp add: example_response_def)
  then have ne: "StatusCode ?resp \<noteq> 200" by simp
  from non_200_fixed_error [OF d issued answer ne] d issued ne
  show ?thesis by (simp add: status FormatInt_401)
qed

text \<open>
  C6 as stated fails: the errors returned for status 401 and for status 500 are one and
  the same value, so the error does not carry the status; and the trace of the call ends
  with the log entry, the body is not closed.
\<close>

theorem non_200_error_counterexample:
  "waitForNtfyMessage (example_world (example_response 401 (example_body [] None))) example_config
     = (Return (Some (errors_New ''invalid response code from ntfy'')),
        [ClientDo \<lparr>Method = ''GET'', URL = ''https://ntfy.sh/alerts/json'',
                   Header = [(''Authorization'', ''Bearer '')], ReqBody = None\<rparr>,
         Log LevelError ''invalid status code''
           [(''expected'', AInt 200), (''domain'', AStr ''ntfy.sh''),
            (''statusCode'', AStr ''401'')]])
   \<and> fst (waitForNtfyMessage
            (example_world (example_response 500 (example_body [] None))) example_config)
     = fst (waitForNtfyMessage
              (example_world (example_response 401 (example_body [] None))) example_config)
   \<and> BodyClose \<notin> set (snd (waitForNtfyMessage
        (example_world (example_response 401 (example_body [] None))) example_config))"
  by (simp add: waitForNtfyMessage_def example_config_fields example_world_def
      example_response_def http_NewRequest_def Header_Add_def Let_def FormatInt_401)

subsection \<open>The Authorization header\<close>

text \<open>
  \<^verbatim>\<open>flag.String\<close> never returns nil, so after \<open>main\<close> has read the configuration the
  pointer \<^verbatim>\<open>ntfyAuth\<close> is set whether or not a credential was given, and the test
  \<^verbatim>\<open>ntfyAuth != nil\<close> always succeeds.
\<close>

lemma main_config_ntfyAuth:
  "ntfyAuth (main_config env given)
     = Some (case given ''ntfy-auth'' of
               Some v \<Rightarrow> v
             | None \<Rightarrow> (case env ''NTFY_AUTH'' of Some v \<Rightarrow> v | None \<Rightarrow> []))"
  by (simp add: main_config_def LookupEnv_def flag_String_def split: option.splits prod.splits)

text \<open>
  C8 at a configuration without credential (no \<^verbatim>\<open>NTFY_AUTH\<close>, no \<^verbatim>\<open>-ntfy-auth\<close>): the
  URL is \<^verbatim>\<open>"https://" + host + "/" + topic + "/json"\<close>, and the request carries the
  header \<^verbatim>\<open>Authorization: Bearer \<close> with an empty credential, where the specification
  has no Authorization header.
\<close>

theorem no_credential_sends_authorization:
  "example_env ''NTFY_AUTH'' = None
   \<and> ntfyAuth example_config = Some []
   \<and> waitForNtfyMessage offline_world example_config
     = (Return (Some (lib_error ''connection refused'')),
        [ClientDo \<lparr>Method = ''GET'', URL = ''https://ntfy.sh/alerts/json'',
                   Header = [(''Authorization'', ''Bearer '')], ReqBody = None\<rparr>,
         Log LevelError ''error connecting to ntfy server''
           [(''err'', AErr (lib_error ''connection refused''))]])"
  by (simp add: waitForNtfyMessage_def example_config_fields offline_world_def example_env_def
      http_NewRequest_def Header_Add_def Let_def)

section \<open>Properties of the delivery function\<close>

text \<open>
  C7. Called with a nil pointer, \<open>sendToSlack\<close> returns the error
  \<^verbatim>\<open>webhook undefined\<close> and does nothing else: no request is built or sent, whatever
  the configuration and the network are.
\<close>

theorem sendToSlack_nil:
  "sendToSlack w cfg None = (Return (Some (errors_New ''webhook undefined'')), [])"
  by (simp add: sendToSlack_def)

text \<open>
  Whenever \<open>sendToSlack\<close> hands a request to the HTTP client, it is a POST of the encoded
  message to \<^verbatim>\<open>*slackWebhookUrl\<close> with the header \<^verbatim>\<open>Content-Type: application/json\<close>.
\<close>

lemma sendToSlack_request:
  assumes "ClientDo req \<in> set (snd (sendToSlack w cfg webhook))"
  shows "\<exists>m js url. webhook = Some m \<and> json_Marshal w m = Inr js
           \<and> slackWebhookUrl cfg = Some url \<and> url_Parse w url = None
           \<and> req = \<lparr>Method = ''POST'', URL = url,
                    Header = [(''Content-Type'', ''application/json'')], ReqBody = Some js\<rparr>"
  using assms
  by (auto simp: sendToSlack_def http_NewRequest_def Header_Set_def Let_def io_ReadAll_def
        close_body_def
      split: option.splits sum.splits if_splits)

lemma sendToSlack_sent:
  assumes "ClientDo req \<in> set (snd (sendToSlack w cfg webhook))"
  shows "sendToSlack w cfg webhook
           = (case client_Do w req of
                Inl e \<Rightarrow> (Return (Some e), [ClientDo req])
              | Inr resp \<Rightarrow>
                 (case stop_err (Body resp) of
                    Some e \<Rightarrow>
                      (Return (Some e),
                       [ClientDo req, ReadAll,
                        Log LevelError ''error parsing body'' [(''err'', AErr e)]]
                       @ close_body (Body resp))
                  | None \<Rightarrow>
                      (if StatusCode resp \<ge> 400
                       then Return (Some (errors_New (''error status code '' @ FormatInt (StatusCode resp))))
                       else Return None,
                       [ClientDo req, ReadAll,
                        Log LevelDebug ''slack response''
                          [(''status'', AInt (StatusCode resp)), (''body'', AStr (content (Body resp)))]]
                       @ close_body (Body resp))))"
proof -
  from sendToSlack_request [OF assms]
  obtain m js url where "webhook = Some m" "json_Marshal w m = Inr js"
      "slackWebhookUrl cfg = Some url" "url_Parse w url = None"
      "req = \<lparr>Method = ''POST'', URL = url,
              Header = [(''Content-Type'', ''application/json'')], ReqBody = Some js\<rparr>"
    by blast
  then show ?thesis
    by (simp add: sendToSlack_def http_NewRequest_def Header_Set_def io_ReadAll_def
        split: sum.splits option.splits)
qed

lemma sendToSlack_success_sent:
  assumes "fst (sendToSlack w cfg webhook) = Return None"
  shows "\<exists>req. ClientDo req \<in> set (snd (sendToSlack w cfg webhook))"
  using assms
  by (auto simp: sendToSlack_def http_NewRequest_def Let_def io_ReadAll_def
      split: option.splits sum.splits if_splits)

text \<open>
  C5, as the code has it. \<open>sendToSlack\<close> returns nil exactly when the POST was sent, was
  answered, the body of the answer was read to its end without error, and the status is
  below 400. When the client fails to connect, its error is returned. When it is
  answered, the body is read with \<^verbatim>\<open>io.ReadAll\<close> before anything else: a failing read
  is returned as the error whatever the status is, and after a complete read a status
  of 400 or more gives the error \<^verbatim>\<open>error status code\<close> followed by the status in
  decimal.
\<close>

theorem sendToSlack_outcome:
  "(fst (sendToSlack w cfg webhook) = Return None
      \<longleftrightarrow> (\<exists>req resp. ClientDo req \<in> set (snd (sendToSlack w cfg webhook))
             \<and> client_Do w req = Inr resp
             \<and> stop_err (Body resp) = None \<and> StatusCode resp < 400))
   \<and> (\<forall>req e. ClientDo req \<in> set (snd (sendToSlack w cfg webhook)) \<and> client_Do w req = Inl e
         \<longrightarrow> fst (sendToSlack w cfg webhook) = Return (Some e))
   \<and> (\<forall>req resp. ClientDo req \<in> set (snd (sendToSlack w cfg webhook)) \<and> client_Do w req = Inr resp
         \<longrightarrow> ReadAll \<in> set (snd (sendToSlack w cfg webhook))
           \<and> (\<forall>e. stop_err (Body resp) = Some e
                 \<longrightarrow> fst (sendToSlack w cfg webhook) = Return (Some e))
           \<and> (stop_err (Body resp) = None \<and> 400 \<le> StatusCode resp
                 \<longrightarrow> fst (sendToSlack w cfg webhook)
                       = Return (Some (errors_New (''error status code '' @ FormatInt (StatusCode resp))))))"
proof -
  let ?S = "sendToSlack w cfg webhook"
  have one: "fst ?S = Return None
      \<longleftrightarrow> (\<exists>req resp. ClientDo req \<in> set (snd ?S) \<and> client_Do w req = Inr resp
             \<and> stop_err (Body resp) = None \<and> StatusCode resp < 400)"
  proof
    assume ok: "fst ?S = Return None"
    then obtain req where req: "ClientDo req \<in> set (snd ?S)"
      using sendToSlack_success_sent by blast
    show "\<exists>req resp. ClientDo req \<in> set (snd ?S) \<and> client_Do w req = Inr resp
             \<and> stop_err (Body resp) = None \<and> StatusCode resp < 400"
    proof (cases "client_Do w req")
      case (Inl e)
      with sendToSlack_sent [OF req] ok show ?thesis by simp
    next
      case (Inr resp)
      with sendToSlack_sent [OF req] ok
      have "stop_err (Body resp) = None \<and> StatusCode resp < 400"
        by (cases "stop_err (Body resp)") (auto split: if_splits)
      with req Inr show ?thesis by blast
    qed
  next
    assume "\<exists>req resp. ClientDo req \<in> set (snd ?S) \<and> client_Do w req = Inr resp
             \<and> stop_err (Body resp) = None \<and> StatusCode resp < 400"
    then obtain req resp where "ClientDo req \<in> set (snd ?S)" "client_Do w req = Inr resp"
        "stop_err (Body resp) = None" "StatusCode resp < 400"
      by blast
    then show "fst ?S = Return None"
      using sendToSlack_sent [of req w cfg webhook] by simp
  qed
  have two: "fst ?S = Return (Some e)"
    if "ClientDo req \<in> set (snd ?S)" "client_Do w req = Inl e" for req e
    using sendToSlack_sent [OF that(1)] that(2) by simp
  have three: "ReadAll \<in> set (snd ?S)
           \<and> (\<forall>e. stop_err (Body resp) = Some e \<longrightarrow> fst ?S = Return (Some e))
           \<and> (stop_err (Body resp) = None \<and> 400 \<le> StatusCode resp
                 \<longrightarrow> fst ?S = Return (Some (errors_New (''error status code '' @ FormatInt (StatusCode resp)))))"
    if "ClientDo req \<in> set (snd ?S)" "client_Do w req = Inr resp" for req resp
    using sendToSlack_sent [OF that(1)] that(2)
    by (cases "stop_err (Body resp)") simp_all
  show ?thesis using one two three by blast
qed

lemma example_post_issued:
  \<open>ClientDo \<lparr>Method = ''POST'', URL = ''https://hooks.example/T'',
             Header = [(''Content-Type'', ''application/json'')],
             ReqBody = Some ''{"text":"ping"}''\<rparr>
     \<in> set (snd (sendToSlack (example_world resp) example_config (Some \<lparr>Text = ''ping''\<rparr>)))\<close>
  by (simp add: sendToSlack_def example_config_fields example_world_def example_Marshal_def
      http_NewRequest_def Header_Set_def Let_def io_ReadAll_def
      split: option.splits)

lemma offline_post_issued:
  \<open>ClientDo \<lparr>Method = ''POST'', URL = ''https://hooks.example/T'',
             Header = [(''Content-Type'', ''application/json'')],
             ReqBody = Some ''{"text":"ping"}''\<rparr>
     \<in> set (snd (sendToSlack offline_world example_config (Some \<lparr>Text = ''ping''\<rparr>)))\<close>
  by (simp add: sendToSlack_def example_config_fields offline_world_def example_Marshal_def
      http_NewRequest_def Header_Set_def Let_def)

lemma FormatInt_500: "FormatInt 500 = ''500''"
  by code_simp

theorem sendToSlack_outcome_witness:
  \<open>ClientDo \<lparr>Method = ''POST'', URL = ''https://hooks.example/T'',
             Header = [(''Content-Type'', ''application/json'')],
             ReqBody = Some ''{"text":"ping"}''\<rparr>
     \<in> set (snd (sendToSlack (example_world (example_response 200 (example_body ''ok'' None)))
                   example_config (Some \<lparr>Text = ''ping''\<rparr>)))
   \<and> stop_err (Body (example_response 200 (example_body ''ok'' None))) = None
   \<and> StatusCode (example_response 200 (example_body ''ok'' None)) < 400
   \<and> fst (sendToSlack (example_world (example_response 200 (example_body ''ok'' None)))
            example_config (Some \<lparr>Text = ''ping''\<rparr>)) = Return None
   \<and> stop_err (Body (example_response 500 (example_body ''no'' None))) = None
   \<and> 400 \<le> StatusCode (example_response 500 (example_body ''no'' None))
   \<and> fst (sendToSlack (example_world (example_response 500 (example_body ''no'' None)))
            example_config (Some \<lparr>Text = ''ping''\<rparr>))
       = Return (Some (errors_New ''error status code 500''))
   \<and> client_Do offline_world
        \<lparr>Method = ''POST'', URL = ''https://hooks.example/T'',
         Header = [(''Content-Type'', ''application/json'')],
         ReqBody = Some ''{"text":"ping"}''\<rparr>
       = Inl (lib_error ''connection refused'')
   \<and> fst (sendToSlack offline_world example_config (Some \<lparr>Text = ''ping''\<rparr>))
       = Return (Some (lib_error ''connection refused''))\<close>
proof -
  let ?post = \<open>\<lparr>Method = ''POST'', URL = ''https://hooks.example/T'',
             Header = [(''Content-Type'', ''application/json'')],
             ReqBody = Some ''{"text":"ping"}''\<rparr>\<close>
  let ?m = "Some \<lparr>Text = ''ping''\<rparr>"
  let ?r200 = "example_response 200 (example_body ''ok'' None)"
  let ?r500 = "example_response 500 (example_body ''no'' None)"
  have a200: "client_Do (example_world ?r200) ?post = Inr ?r200"
    and a500: "client_Do (example_world ?r500) ?post = Inr ?r500"
    and off: "client_Do offline_world ?post = Inl (lib_error ''connection refused'')"
    by (simp_all add: example_world_def offline_world_def)
  have r200: "stop_err (Body ?r200) = None" "StatusCode ?r200 < 400"
    and r500: "stop_err (Body ?r500) = None" "400 \<le> StatusCode ?r500" "StatusCode ?r500 = 500"
    by (simp_all add: example_response_def example_body_def)
  have ok: "fst (sendToSlack (example_world ?r200) example_config ?m) = Return None"
    using sendToSlack_outcome [of "example_world ?r200" example_config ?m]
      example_post_issued [of ?r200] a200 r200
    by blast
  have "fst (sendToSlack (example_world ?r500) example_config ?m)
          = Return (Some (errors_New (''error status code '' @ FormatInt (StatusCode ?r500))))"
    using sendToSlack_outcome [of "example_world ?r500" example_config ?m]
      example_post_issued [of ?r500] a500 r500(1,2)
    by blast
  then have rejected: "fst (sendToSlack (example_world ?r500) example_config ?m)
          = Return (Some (errors_New ''error status code 500''))"
    by (simp add: r500(3) FormatInt_500)
  have refused: "fst (sendToSlack offline_world example_config ?m)
          = Return (Some (lib_error ''connection refused''))"
    using sendToSlack_outcome [of offline_world example_config ?m] offline_post_issued off
    by blast
  show ?thesis
    using example_post_issued [of ?r200] r200 ok r500(1,2) rejected off refused
    by (intro conjI)
qed

text \<open>
  C5 as stated fails on its last part: a response with status 500 whose body cannot be
  read to the end makes \<open>sendToSlack\<close> return the read error, not the error that
  carries the status.
\<close>

theorem sendToSlack_rejection_counterexample:
  "StatusCode (example_response 500 (example_body [] (Some (lib_error ''unexpected EOF'')))) = 500
   \<and> fst (sendToSlack
            (example_world (example_response 500
               (example_body [] (Some (lib_error ''unexpected EOF'')))))
            example_config (Some \<lparr>Text = ''ping''\<rparr>))
       = Return (Some (lib_error ''unexpected EOF''))
   \<and> fst (sendToSlack
            (example_world (example_response 500
               (example_body [] (Some (lib_error ''unexpected EOF'')))))
            example_config (Some \<lparr>Text = ''ping''\<rparr>))
       \<noteq> Return (Some (errors_New (''error status code '' @ FormatInt 500)))"
  by (simp add: sendToSlack_def example_config_fields example_world_def example_Marshal_def
      example_response_def example_body_def http_NewRequest_def Header_Set_def Let_def
      io_ReadAll_def)

section \<open>Properties of the supervisory loop\<close>
















end
